theory Spec2Isabelle
  imports Main
begin

section \<open>Data model\<close>

text \<open>
  The integration lives in one module, \<^verbatim>\<open>custom_components/dyson_local/__init__.py\<close>.
  Everything it touches that is not its own code is a collaborator: the device library
  (\<^verbatim>\<open>libdyson\<close>) and the host platform (\<^verbatim>\<open>homeassistant\<close>). Collaborators are modelled
  by the calls the module makes on them: each call is appended to a trace, and what a call
  answers (returns normally, raises, returns a boolean) is read from an environment.
  \<^verbatim>\<open>connect\<close> may raise and a platform unload may answer \<^verbatim>\<open>False\<close>; the other calls
  (logging, forwarding, starting discovery, listening for the stop event, registering,
  disconnecting) return normally. Each coroutine runs from its first statement to its
  last without another one in between.
\<close>

text \<open>
  Python exceptions that the module raises itself or that pass through it.
  \<^verbatim>\<open>OtherException\<close> stands for any exception of a collaborator that is not a
  \<^verbatim>\<open>DysonException\<close>.
\<close>

datatype exn =
    DysonException
  | ConfigEntryNotReady
  | KeyError string
  | OtherException string

text \<open>
  The Python class of a device object; \<^verbatim>\<open>isinstance(device, Dyson360Eye)\<close> is the only
  question the module asks about it.
\<close>

datatype dyson_class = Dyson360Eye | OtherDysonDevice string

record dyson_device =
  py_class :: dyson_class
  serial :: string
  device_type :: string

text \<open>
  A config entry: \<^verbatim>\<open>entry.entry_id\<close> and the keys of \<^verbatim>\<open>entry.data\<close> that the module
  reads. \<^verbatim>\<open>CONF_HOST\<close> is read with \<^verbatim>\<open>.get\<close>, so it may be missing.
\<close>

record config_entry =
  entry_id :: string
  conf_serial :: string
  conf_credential :: string
  conf_device_type :: string
  conf_host :: "string option"

text \<open>Calls on collaborators, in the order the module issues them.\<close>

datatype event =
    Connect string string
  | Disconnect string
  | LogError string string
  | LogDebug string
  | ForwardEntrySetup string string
  | ForwardEntryUnload string string
  | NewDysonDiscovery
  | StartDiscovery
  | ListenOnceStop
  | RegisterDevice string string

text \<open>
  The closure \<^verbatim>\<open>setup_entry\<close> that \<^verbatim>\<open>async_setup_entry\<close> hands to the discovery service:
  it captures the entry and the device of the enclosing call.
\<close>

datatype callback = Setup_entry_closure config_entry dyson_device

text \<open>
  The discovery service is a collaborator; the module only creates it, starts it and
  registers (device, callback) pairs with it. The model keeps the pairs that the module
  has handed to it, in the order of the calls.
\<close>

record dyson_discovery =
  registered :: "(dyson_device \<times> callback) list"

text \<open>
  \<^verbatim>\<open>hass.data[DOMAIN]\<close>: the mapping \<^verbatim>\<open>DATA_DEVICES\<close> from entry identifier to device and
  the value \<^verbatim>\<open>DATA_DISCOVERY\<close>. The trace holds every call on a collaborator together
  with the content of \<^verbatim>\<open>DATA_DEVICES\<close> at the moment the call was issued.
\<close>

record hass =
  devices :: "string \<rightharpoonup> dyson_device"
  discovery :: "dyson_discovery option"
  trace :: "(event \<times> (string \<rightharpoonup> dyson_device)) list"

text \<open>
  What the collaborators answer: the device factory, \<^verbatim>\<open>device.connect(host)\<close>
  (\<open>None\<close> when it returns, \<open>Some e\<close> when it raises \<open>e\<close>), the result of
  \<^verbatim>\<open>hass.config_entries.async_forward_entry_unload(entry, component)\<close>, and what the
  discovery service does with a registration: \<open>announced\<close> is \<open>Some host\<close> when the
  service has already seen the device at \<open>host\<close> and therefore calls the callback with
  it before \<^verbatim>\<open>register_device\<close> returns, and \<open>None\<close> when it keeps the pair for a later
  announcement.
\<close>

record env =
  get_device :: "string \<Rightarrow> string \<Rightarrow> string \<Rightarrow> dyson_device"
  connect :: "dyson_device \<Rightarrow> string \<Rightarrow> exn option"
  async_forward_entry_unload :: "config_entry \<Rightarrow> string \<Rightarrow> bool"
  announced :: "dyson_device \<Rightarrow> string option"

section \<open>Operations\<close>

definition emit :: "event \<Rightarrow> hass \<Rightarrow> hass" where
  "emit ev s = s\<lparr>trace := trace s @ [(ev, devices s)]\<rparr>"

text \<open>\<^verbatim>\<open>async_setup\<close>: both slots of \<^verbatim>\<open>hass.data[DOMAIN]\<close> are initialised.\<close>

definition async_setup :: hass where
  "async_setup = \<lparr>devices = Map.empty, discovery = None, trace = []\<rparr>"

text \<open>\<^verbatim>\<open>_async_get_platform\<close>\<close>

definition async_get_platform :: "dyson_device \<Rightarrow> string list" where
  "async_get_platform device =
     (if py_class device = Dyson360Eye
      then [''binary_sensor'', ''sensor'', ''vacuum'']
      else [''fan'', ''sensor''])"

text \<open>
  \<^verbatim>\<open>_async_forward_entry_setup\<close>: one forward call per component, in the order of the
  list.
\<close>

fun forward_components :: "config_entry \<Rightarrow> string list \<Rightarrow> hass \<Rightarrow> hass" where
  "forward_components entry [] s = s"
| "forward_components entry (component # rest) s =
     forward_components entry rest (emit (ForwardEntrySetup (entry_id entry) component) s)"

definition async_forward_entry_setup :: "config_entry \<Rightarrow> dyson_device \<Rightarrow> hass \<Rightarrow> hass" where
  "async_forward_entry_setup entry device s =
     forward_components entry (async_get_platform device) s"

text \<open>
  The inner function \<^verbatim>\<open>setup_entry(host, is_discovery)\<close> of \<^verbatim>\<open>async_setup_entry\<close>, with the
  captured \<open>entry\<close> and \<open>device\<close> as arguments. It returns \<^verbatim>\<open>None\<close> on both paths
  that return.
\<close>

definition setup_entry ::
  "env \<Rightarrow> config_entry \<Rightarrow> dyson_device \<Rightarrow> string \<Rightarrow> bool \<Rightarrow> hass \<Rightarrow> (exn + unit) \<times> hass" where
  "setup_entry e entry device host is_discovery s =
     (let s1 = emit (Connect (serial device) host) s in
      case connect e device host of
        Some DysonException \<Rightarrow>
          if is_discovery
          then (Inr (), emit (LogError (serial device) host) s1)
          else (Inl ConfigEntryNotReady, s1)
      | Some other \<Rightarrow> (Inl other, s1)
      | None \<Rightarrow>
          (let s2 = s1\<lparr>devices := (devices s1)(entry_id entry \<mapsto> device)\<rparr>
           in (Inr (), async_forward_entry_setup entry device s2)))"

text \<open>Python truthiness of \<^verbatim>\<open>entry.data.get(CONF_HOST)\<close>.\<close>

definition truthy :: "string option \<Rightarrow> bool" where
  "truthy h = (case h of None \<Rightarrow> False | Some x \<Rightarrow> x \<noteq> [])"

text \<open>
  \<^verbatim>\<open>discovery.register_device(device, setup_entry)\<close>, as far as the service's own
  state goes: the pair is handed over.
\<close>

definition register_device :: "dyson_device \<Rightarrow> callback \<Rightarrow> dyson_discovery \<Rightarrow> dyson_discovery" where
  "register_device device cb d = d\<lparr>registered := registered d @ [(device, cb)]\<rparr>"

text \<open>
  The \<^verbatim>\<open>else\<close> branch of \<^verbatim>\<open>async_setup_entry\<close> up to the registration: the stored
  discovery service, created, stored, started and hooked to the stop event when the slot
  holds \<^verbatim>\<open>None\<close>.
\<close>

definition obtain_discovery :: "hass \<Rightarrow> dyson_discovery \<times> hass" where
  "obtain_discovery s =
     (case discovery s of
        Some d \<Rightarrow> (d, s)
      | None \<Rightarrow>
          (let d = \<lparr>registered = []\<rparr>;
               s1 = emit NewDysonDiscovery s;
               s2 = s1\<lparr>discovery := Some d\<rparr>;
               s3 = emit (LogDebug ''Starting dyson discovery'') s2;
               s4 = emit StartDiscovery s3;
               s5 = emit ListenOnceStop s4
           in (d, s5)))"

text \<open>
  The discovery service calls a registered callback with the announced host only, so
  \<^verbatim>\<open>is_discovery\<close> takes its default \<^verbatim>\<open>True\<close>.
\<close>

fun call_callback :: "env \<Rightarrow> callback \<Rightarrow> string \<Rightarrow> hass \<Rightarrow> (exn + unit) \<times> hass" where
  "call_callback e (Setup_entry_closure entry device) host s =
     setup_entry e entry device host True s"

text \<open>
  \<^verbatim>\<open>async_setup_entry\<close>. The registration of the last statement runs in the executor
  and is awaited: when the service calls the callback during the registration, the
  callback's calls are made before the setup returns, and an exception that the callback
  lets through is raised by the setup.
\<close>

definition async_setup_entry :: "env \<Rightarrow> config_entry \<Rightarrow> hass \<Rightarrow> (exn + bool) \<times> hass" where
  "async_setup_entry e entry s =
     (let device = get_device e (conf_serial entry) (conf_credential entry)
                     (conf_device_type entry);
          host = conf_host entry
      in if truthy host then
           (case setup_entry e entry device (the host) False s of
              (Inl err, s') \<Rightarrow> (Inl err, s')
            | (Inr _, s') \<Rightarrow> (Inr True, s'))
         else
           (let (d, s1) = obtain_discovery s;
                s2 = emit (RegisterDevice (serial device) (entry_id entry)) s1;
                cb = Setup_entry_closure entry device;
                s3 = s2\<lparr>discovery := Some (register_device device cb d)\<rparr>
            in case announced e device of
                 None \<Rightarrow> (Inr True, s3)
               | Some found \<Rightarrow>
                   (case call_callback e cb found s3 of
                      (Inl err, s') \<Rightarrow> (Inl err, s')
                    | (Inr _, s') \<Rightarrow> (Inr True, s'))))"

text \<open>
  \<^verbatim>\<open>async_unload_entry\<close>: the lookup raises \<^verbatim>\<open>KeyError\<close> on a missing key; the list
  comprehension and \<^verbatim>\<open>asyncio.gather\<close> issue every unload before \<^verbatim>\<open>all\<close> looks at the
  results.
\<close>

definition async_unload_entry :: "env \<Rightarrow> config_entry \<Rightarrow> hass \<Rightarrow> (exn + bool) \<times> hass" where
  "async_unload_entry e entry s =
     (case devices s (entry_id entry) of
        None \<Rightarrow> (Inl (KeyError (entry_id entry)), s)
      | Some device \<Rightarrow>
          (let components = async_get_platform device;
               s1 = fold (\<lambda>component. emit (ForwardEntryUnload (entry_id entry) component))
                      components s;
               ok = list_all (async_forward_entry_unload e entry) components
           in if ok then
                (let s2 = s1\<lparr>devices := (devices s1)(entry_id entry := None)\<rparr>
                 in (Inr ok, emit (Disconnect (serial device)) s2))
              else (Inr ok, s1)))"

subsection \<open>The entity base class\<close>

text \<open>
  \<^verbatim>\<open>DysonEntity\<close>: the two instance attributes set by \<^verbatim>\<open>__init__\<close> and the class
  attribute \<^verbatim>\<open>_MESSAGE_TYPE\<close>, which is \<^verbatim>\<open>None\<close> in the base class and which a concrete
  entity class may set. The message type is an enumeration of the device library and
  stays a type parameter.
\<close>

record 'm dyson_entity =
  ent_device :: dyson_device
  ent_name :: string
  MESSAGE_TYPE :: "'m option"

definition DysonEntity :: "'m option \<Rightarrow> dyson_device \<Rightarrow> string \<Rightarrow> 'm dyson_entity" where
  "DysonEntity filter_type device name =
     \<lparr>ent_device = device, ent_name = name, MESSAGE_TYPE = filter_type\<rparr>"

datatype entity_call = Schedule_update_ha_state

text \<open>\<^verbatim>\<open>_on_message\<close>: the calls it makes on the host platform.\<close>

definition on_message :: "'m dyson_entity \<Rightarrow> 'm \<Rightarrow> entity_call list" where
  "on_message self message_type =
     (if MESSAGE_TYPE self = None \<or> Some message_type = MESSAGE_TYPE self
      then [Schedule_update_ha_state] else [])"

definition should_poll :: "'m dyson_entity \<Rightarrow> bool" where
  "should_poll self = False"

definition name :: "'m dyson_entity \<Rightarrow> string" where
  "name self = ent_name self"

definition unique_id :: "'m dyson_entity \<Rightarrow> string" where
  "unique_id self = serial (ent_device self)"

section \<open>Observing runs\<close>

text \<open>The calls issued between a state and a later state of the same run.\<close>

definition calls_since :: "hass \<Rightarrow> hass \<Rightarrow> (event \<times> (string \<rightharpoonup> dyson_device)) list" where
  "calls_since s s' = drop (length (trace s)) (trace s')"

fun is_forward_setup :: "event \<Rightarrow> bool" where
  "is_forward_setup (ForwardEntrySetup _ _) = True"
| "is_forward_setup _ = False"

fun is_connect :: "event \<Rightarrow> bool" where
  "is_connect (Connect _ _) = True"
| "is_connect _ = False"

definition count_calls :: "event \<Rightarrow> (event \<times> (string \<rightharpoonup> dyson_device)) list \<Rightarrow> nat" where
  "count_calls ev t = length (filter (\<lambda>c. fst c = ev) t)"






section \<open>Concrete inputs\<close>

text \<open>
  A small installation used to run the operations: a factory that builds a
  \<^verbatim>\<open>Dyson360Eye\<close> for the device type \<^verbatim>\<open>N223\<close> and some other device otherwise, a
  network on which only \<^verbatim>\<open>192.168.1.20\<close> answers, a host platform on which the
  \<^verbatim>\<open>vacuum\<close> platform refuses to unload, and a discovery service that has seen no
  device yet.
\<close>

definition demo_env :: env where
  "demo_env = \<lparr>get_device = (\<lambda>ser cred ty.
       \<lparr>py_class = (if ty = ''N223'' then Dyson360Eye else OtherDysonDevice ty),
        serial = ser, device_type = ty\<rparr>),
     connect = (\<lambda>d h. if h = ''192.168.1.20'' then None else Some DysonException),
     async_forward_entry_unload = (\<lambda>entry c. c \<noteq> ''vacuum''),
     announced = (\<lambda>d. None)\<rparr>"

definition fan_entry :: config_entry where
  "fan_entry = \<lparr>entry_id = ''entry-1'', conf_serial = ''AB1-EU-XYZ0001A'',
     conf_credential = ''secret'', conf_device_type = ''475'',
     conf_host = Some ''192.168.1.20''\<rparr>"

definition fan_device :: dyson_device where
  "fan_device = \<lparr>py_class = OtherDysonDevice ''475'', serial = ''AB1-EU-XYZ0001A'',
     device_type = ''475''\<rparr>"

definition eye_entry :: config_entry where
  "eye_entry = \<lparr>entry_id = ''entry-2'', conf_serial = ''CD2-EU-XYZ0002B'',
     conf_credential = ''secret'', conf_device_type = ''N223'',
     conf_host = Some ''192.168.1.20''\<rparr>"

definition eye_device :: dyson_device where
  "eye_device = \<lparr>py_class = Dyson360Eye, serial = ''CD2-EU-XYZ0002B'',
     device_type = ''N223''\<rparr>"

definition connected_hass :: hass where
  "connected_hass = \<lparr>devices = [''entry-1'' \<mapsto> fan_device, ''entry-2'' \<mapsto> eye_device],
     discovery = None, trace = []\<rparr>"

section \<open>Basic facts about the operations\<close>

lemma emit_devices [simp]: "devices (emit ev s) = devices s"
  and emit_discovery [simp]: "discovery (emit ev s) = discovery s"
  and emit_trace [simp]: "trace (emit ev s) = trace s @ [(ev, devices s)]"
  by (simp_all add: emit_def)

lemma forward_components_devices [simp]:
  "devices (forward_components entry cs s) = devices s"
  by (induction cs arbitrary: s) simp_all

lemma forward_components_discovery [simp]:
  "discovery (forward_components entry cs s) = discovery s"
  by (induction cs arbitrary: s) simp_all

lemma forward_components_trace:
  "trace (forward_components entry cs s) =
     trace s @ map (\<lambda>c. (ForwardEntrySetup (entry_id entry) c, devices s)) cs"
  by (induction cs arbitrary: s) simp_all

lemma fold_emit_devices [simp]:
  "devices (fold (\<lambda>c. emit (f c)) cs s) = devices s"
  by (induction cs arbitrary: s) simp_all

lemma fold_emit_discovery [simp]:
  "discovery (fold (\<lambda>c. emit (f c)) cs s) = discovery s"
  by (induction cs arbitrary: s) simp_all

lemma fold_emit_trace:
  "trace (fold (\<lambda>c. emit (f c)) cs s) = trace s @ map (\<lambda>c. (f c, devices s)) cs"
  by (induction cs arbitrary: s) simp_all

lemma calls_since_append [simp]:
  "trace s' = trace s @ t \<Longrightarrow> calls_since s s' = t"
  by (simp add: calls_since_def)

lemma truthy_Some [simp]: "truthy (Some h) = (h \<noteq> [])"
  and truthy_None [simp]: "\<not> truthy None"
  by (simp_all add: truthy_def)

text \<open>The two outcomes of \<^verbatim>\<open>setup_entry\<close> that the module handles itself.\<close>

lemma setup_entry_connected:
  assumes "connect e device host = None"
  shows "setup_entry e entry device host is_discovery s =
     (Inr (), s\<lparr>devices := (devices s)(entry_id entry \<mapsto> device),
               trace := trace s @ (Connect (serial device) host, devices s) #
                  map (\<lambda>c. (ForwardEntrySetup (entry_id entry) c,
                             (devices s)(entry_id entry \<mapsto> device)))
                      (async_get_platform device)\<rparr>)"
proof -
  have "async_forward_entry_setup entry device
          (emit (Connect (serial device) host) s
             \<lparr>devices := (devices s)(entry_id entry \<mapsto> device)\<rparr>) =
        s\<lparr>devices := (devices s)(entry_id entry \<mapsto> device),
          trace := trace s @ (Connect (serial device) host, devices s) #
             map (\<lambda>c. (ForwardEntrySetup (entry_id entry) c,
                        (devices s)(entry_id entry \<mapsto> device)))
                 (async_get_platform device)\<rparr>"
    by (rule hass.equality)
       (simp_all add: async_forward_entry_setup_def forward_components_trace)
  with assms show ?thesis
    by (simp add: setup_entry_def Let_def)
qed

lemma setup_entry_refused:
  assumes "connect e device host = Some DysonException"
  shows "setup_entry e entry device host is_discovery s =
     (if is_discovery
      then (Inr (), s\<lparr>trace := trace s @ [(Connect (serial device) host, devices s),
                                          (LogError (serial device) host, devices s)]\<rparr>)
      else (Inl ConfigEntryNotReady,
            s\<lparr>trace := trace s @ [(Connect (serial device) host, devices s)]\<rparr>))"
  using assms by (simp add: setup_entry_def Let_def emit_def)

lemma setup_entry_raised:
  assumes "connect e device host = Some x" and "x \<noteq> DysonException"
  shows "setup_entry e entry device host is_discovery s =
     (Inl x, s\<lparr>trace := trace s @ [(Connect (serial device) host, devices s)]\<rparr>)"
  using assms by (cases x) (simp_all add: setup_entry_def Let_def emit_def)

lemma obtain_discovery_None:
  assumes "discovery s = None"
  shows "obtain_discovery s =
     (\<lparr>registered = []\<rparr>,
      s\<lparr>discovery := Some \<lparr>registered = []\<rparr>,
        trace := trace s @ [(NewDysonDiscovery, devices s),
                            (LogDebug ''Starting dyson discovery'', devices s),
                            (StartDiscovery, devices s),
                            (ListenOnceStop, devices s)]\<rparr>)"
  using assms by (simp add: obtain_discovery_def Let_def emit_def)

lemma obtain_discovery_Some:
  assumes "discovery s = Some d"
  shows "obtain_discovery s = (d, s)"
  using assms by (simp add: obtain_discovery_def)

text \<open>The whole effect of a setup without a host when the service keeps the pair.\<close>

lemma hostless_setup_result:
  assumes "\<not> truthy (conf_host entry)" and "announced e
     (get_device e (conf_serial entry) (conf_credential entry) (conf_device_type entry)) = None"
  shows "async_setup_entry e entry s =
     (let device = get_device e (conf_serial entry) (conf_credential entry)
                     (conf_device_type entry);
          reg = (RegisterDevice (serial device) (entry_id entry), devices s)
      in (Inr True,
          s\<lparr>discovery := Some (register_device device (Setup_entry_closure entry device)
                (case discovery s of None \<Rightarrow> \<lparr>registered = []\<rparr> | Some d \<Rightarrow> d)),
            trace := trace s @
               (case discovery s of
                  None \<Rightarrow> [(NewDysonDiscovery, devices s),
                            (LogDebug ''Starting dyson discovery'', devices s),
                            (StartDiscovery, devices s),
                            (ListenOnceStop, devices s), reg]
                | Some d \<Rightarrow> [reg])\<rparr>))"
proof (cases "discovery s")
  case None
  with assms show ?thesis
    by (simp add: async_setup_entry_def Let_def obtain_discovery_None emit_def)
next
  case (Some d)
  with assms show ?thesis
    by (simp add: async_setup_entry_def Let_def obtain_discovery_Some emit_def)
qed

text \<open>
  When the service calls the callback during the registration, the setup goes on from
  the state in which the registration alone would have ended.
\<close>

lemma hostless_setup_called_back:
  assumes "\<not> truthy (conf_host entry)" and "announced e
     (get_device e (conf_serial entry) (conf_credential entry) (conf_device_type entry)) =
       Some found"
  shows "async_setup_entry e entry s =
     (case call_callback e
             (Setup_entry_closure entry
                (get_device e (conf_serial entry) (conf_credential entry)
                   (conf_device_type entry)))
             found (snd (async_setup_entry (e\<lparr>announced := (\<lambda>d. None)\<rparr>) entry s)) of
        (Inl err, s') \<Rightarrow> (Inl err, s')
      | (Inr u, s') \<Rightarrow> (Inr True, s'))"
proof (cases "discovery s")
  case None
  with assms show ?thesis
    by (simp add: async_setup_entry_def Let_def obtain_discovery_None)
next
  case (Some d)
  with assms show ?thesis
    by (simp add: async_setup_entry_def Let_def obtain_discovery_Some)
qed


subsection \<open>Counting calls\<close>

lemma count_calls_append [simp]:
  "count_calls ev (t @ u) = count_calls ev t + count_calls ev u"
  by (simp add: count_calls_def)

lemma count_calls_Nil [simp]: "count_calls ev [] = 0"
  by (simp add: count_calls_def)

lemma count_calls_Cons [simp]:
  "count_calls ev (c # t) = (if fst c = ev then 1 else 0) + count_calls ev t"
  by (simp add: count_calls_def)

lemma count_calls_map_forward [simp]:
  "count_calls NewDysonDiscovery (map (\<lambda>c. (ForwardEntrySetup i c, m)) cs) = 0"
  "count_calls ListenOnceStop (map (\<lambda>c. (ForwardEntrySetup i c, m)) cs) = 0"
  "count_calls NewDysonDiscovery (map (\<lambda>c. (ForwardEntryUnload i c, m)) cs) = 0"
  "count_calls ListenOnceStop (map (\<lambda>c. (ForwardEntryUnload i c, m)) cs) = 0"
  by (induction cs) simp_all

text \<open>A connect handler and an unload issue no call on the discovery life cycle.\<close>

lemma setup_entry_effect:
  "count_calls NewDysonDiscovery (trace (snd (setup_entry e entry device host is_discovery s))) =
     count_calls NewDysonDiscovery (trace s)
   \<and> count_calls ListenOnceStop (trace (snd (setup_entry e entry device host is_discovery s))) =
     count_calls ListenOnceStop (trace s)
   \<and> count_calls NewDysonDiscovery
        (calls_since s (snd (setup_entry e entry device host is_discovery s))) = 0
   \<and> count_calls ListenOnceStop
        (calls_since s (snd (setup_entry e entry device host is_discovery s))) = 0
   \<and> discovery (snd (setup_entry e entry device host is_discovery s)) = discovery s"
proof (cases "connect e device host")
  case None
  then show ?thesis by (simp add: setup_entry_connected calls_since_def)
next
  case (Some x)
  show ?thesis
  proof (cases "x = DysonException")
    case True
    with Some show ?thesis by (simp add: setup_entry_refused calls_since_def)
  next
    case False
    with Some show ?thesis by (simp add: setup_entry_raised calls_since_def)
  qed
qed



lemma hostless_setup_discovery:
  assumes "\<not> truthy (conf_host entry)"
  shows "discovery (snd (async_setup_entry e entry s)) =
     Some (register_device
       (get_device e (conf_serial entry) (conf_credential entry) (conf_device_type entry))
       (Setup_entry_closure entry
          (get_device e (conf_serial entry) (conf_credential entry) (conf_device_type entry)))
       (case discovery s of None \<Rightarrow> \<lparr>registered = []\<rparr> | Some d \<Rightarrow> d))"
proof -
  let ?device = "get_device e (conf_serial entry) (conf_credential entry)
                   (conf_device_type entry)"
  let ?e0 = "e\<lparr>announced := (\<lambda>d. None)\<rparr>"
  let ?r = "snd (async_setup_entry ?e0 entry s)"
  have kept: "announced ?e0 (get_device ?e0 (conf_serial entry) (conf_credential entry)
                (conf_device_type entry)) = None"
    by simp
  have reg: "discovery ?r = Some (register_device ?device (Setup_entry_closure entry ?device)
       (case discovery s of None \<Rightarrow> \<lparr>registered = []\<rparr> | Some d \<Rightarrow> d))"
    by (simp add: hostless_setup_result [OF assms kept] Let_def)
  show ?thesis
  proof (cases "announced e ?device")
    case None
    then show ?thesis
      by (simp add: hostless_setup_result [OF assms None] Let_def)
  next
    case (Some found)
    have "snd (async_setup_entry e entry s) = snd (setup_entry e entry ?device found True ?r)"
      by (simp add: hostless_setup_called_back [OF assms Some] split: prod.splits sum.splits)
    with reg setup_entry_effect [of e entry ?device found True ?r] show ?thesis
      by simp
  qed
qed




section \<open>Setup with a configured host\<close>

text \<open>
  C1. An entry carries a host address and \<^verbatim>\<open>connect(host)\<close> raises the device error.
  Then \<^verbatim>\<open>async_setup_entry\<close> raises \<^verbatim>\<open>ConfigEntryNotReady\<close>; the device mapping is the
  one before the call, so nothing was added under the entry's identifier; the discovery
  slot is untouched; and none of the calls issued by the setup is a forward to a platform.
\<close>

theorem direct_connect_failure_not_ready:
  assumes "conf_host entry = Some host" and "host \<noteq> []"
    and "connect e (get_device e (conf_serial entry) (conf_credential entry)
           (conf_device_type entry)) host = Some DysonException"
  shows "fst (async_setup_entry e entry s) = Inl ConfigEntryNotReady
    \<and> devices (snd (async_setup_entry e entry s)) = devices s
    \<and> devices (snd (async_setup_entry e entry s)) (entry_id entry) = devices s (entry_id entry)
    \<and> discovery (snd (async_setup_entry e entry s)) = discovery s
    \<and> filter (\<lambda>c. is_forward_setup (fst c))
         (calls_since s (snd (async_setup_entry e entry s))) = []"
  using assms
  by (simp add: async_setup_entry_def Let_def setup_entry_refused)

theorem direct_connect_failure_not_ready_witness:
  "conf_host (fan_entry\<lparr>conf_host := Some ''192.168.1.99''\<rparr>) = Some ''192.168.1.99''
   \<and> connect demo_env fan_device ''192.168.1.99'' = Some DysonException
   \<and> fst (async_setup_entry demo_env (fan_entry\<lparr>conf_host := Some ''192.168.1.99''\<rparr>)
            async_setup) = Inl ConfigEntryNotReady
   \<and> devices (snd (async_setup_entry demo_env (fan_entry\<lparr>conf_host := Some ''192.168.1.99''\<rparr>)
            async_setup)) ''entry-1'' = None"
proof -
  let ?entry = "fan_entry\<lparr>conf_host := Some ''192.168.1.99''\<rparr>"
  have dev: "get_device demo_env (conf_serial ?entry) (conf_credential ?entry)
               (conf_device_type ?entry) = fan_device"
    by (simp add: demo_env_def fan_entry_def fan_device_def)
  have h1: "conf_host ?entry = Some ''192.168.1.99''" by simp
  have h2: "''192.168.1.99'' \<noteq> []" by simp
  have h3: "connect demo_env fan_device ''192.168.1.99'' = Some DysonException"
    by (simp add: demo_env_def)
  have id: "entry_id ?entry = ''entry-1''" by (simp add: fan_entry_def)
  from direct_connect_failure_not_ready [OF h1 h2, of demo_env async_setup] dev h3 id
  show ?thesis by (simp add: async_setup_def)
qed

section \<open>Connecting: storing before forwarding\<close>

text \<open>
  C3. Every forward-to-platform call that a connect handler issues is issued while the
  device mapping holds the device under the entry's identifier, whatever the outcome of
  \<^verbatim>\<open>connect\<close> and whether the handler runs for a configured host or for discovery.
  When \<^verbatim>\<open>connect\<close> returns, the handler returns normally, the device is stored under the
  entry's identifier, and the calls issued are the connect, made on the old mapping, and
  then one forward per platform of the selector, in its order, each made on the mapping
  that already holds the device. The discovery callback and the setup of an entry with a
  host both end in this handler.
\<close>

theorem stored_before_forwarding:
  "(\<forall>c \<in> set (calls_since s (snd (setup_entry e entry device host is_discovery s))).
      is_forward_setup (fst c) \<longrightarrow> snd c (entry_id entry) = Some device)
   \<and> (connect e device host = None \<longrightarrow>
        fst (setup_entry e entry device host is_discovery s) = Inr ()
      \<and> devices (snd (setup_entry e entry device host is_discovery s)) =
          (devices s)(entry_id entry \<mapsto> device)
      \<and> calls_since s (snd (setup_entry e entry device host is_discovery s)) =
          (Connect (serial device) host, devices s) #
          map (\<lambda>c. (ForwardEntrySetup (entry_id entry) c, (devices s)(entry_id entry \<mapsto> device)))
            (async_get_platform device))
   \<and> call_callback e (Setup_entry_closure entry device) host s =
        setup_entry e entry device host True s
   \<and> (connect e (get_device e (conf_serial entry) (conf_credential entry)
          (conf_device_type entry)) host = None \<and> conf_host entry = Some host \<and> host \<noteq> [] \<longrightarrow>
        async_setup_entry e entry s =
          (Inr True, snd (setup_entry e entry (get_device e (conf_serial entry)
             (conf_credential entry) (conf_device_type entry)) host False s)))"
proof (intro conjI)
  show "\<forall>c \<in> set (calls_since s (snd (setup_entry e entry device host is_discovery s))).
      is_forward_setup (fst c) \<longrightarrow> snd c (entry_id entry) = Some device"
  proof (cases "connect e device host")
    case None
    then show ?thesis by (auto simp: setup_entry_connected)
  next
    case (Some x)
    show ?thesis
    proof (cases "x = DysonException")
      case True
      with Some show ?thesis by (simp add: setup_entry_refused)
    next
      case False
      with Some show ?thesis by (simp add: setup_entry_raised)
    qed
  qed
qed (simp_all add: setup_entry_connected async_setup_entry_def Let_def)

theorem stored_before_forwarding_witness:
  "connect demo_env eye_device ''192.168.1.20'' = None
   \<and> fst (setup_entry demo_env eye_entry eye_device ''192.168.1.20'' True async_setup) = Inr ()
   \<and> devices (snd (setup_entry demo_env eye_entry eye_device ''192.168.1.20'' True async_setup))
        ''entry-2'' = Some eye_device
   \<and> calls_since async_setup
        (snd (setup_entry demo_env eye_entry eye_device ''192.168.1.20'' True async_setup)) =
      [(Connect ''CD2-EU-XYZ0002B'' ''192.168.1.20'', Map.empty),
       (ForwardEntrySetup ''entry-2'' ''binary_sensor'', [''entry-2'' \<mapsto> eye_device]),
       (ForwardEntrySetup ''entry-2'' ''sensor'', [''entry-2'' \<mapsto> eye_device]),
       (ForwardEntrySetup ''entry-2'' ''vacuum'', [''entry-2'' \<mapsto> eye_device])]"
proof -
  have h: "connect demo_env eye_device ''192.168.1.20'' = None"
    by (simp add: demo_env_def)
  have i: "entry_id eye_entry = ''entry-2''" and c: "py_class eye_device = Dyson360Eye"
    and n: "serial eye_device = ''CD2-EU-XYZ0002B''" and m: "devices async_setup = Map.empty"
    by (simp_all add: eye_entry_def eye_device_def async_setup_def)
  from stored_before_forwarding
    [of async_setup demo_env eye_entry eye_device "''192.168.1.20''" True]
  have "fst (setup_entry demo_env eye_entry eye_device ''192.168.1.20'' True async_setup) = Inr ()
      \<and> devices (snd (setup_entry demo_env eye_entry eye_device ''192.168.1.20'' True async_setup)) =
          (devices async_setup)(entry_id eye_entry \<mapsto> eye_device)
      \<and> calls_since async_setup
          (snd (setup_entry demo_env eye_entry eye_device ''192.168.1.20'' True async_setup)) =
          (Connect (serial eye_device) ''192.168.1.20'', devices async_setup) #
          map (\<lambda>c. (ForwardEntrySetup (entry_id eye_entry) c,
                     (devices async_setup)(entry_id eye_entry \<mapsto> eye_device)))
            (async_get_platform eye_device)"
    using h by blast
  with h show ?thesis
    by (simp add: i c n m async_get_platform_def)
qed

section \<open>Connecting on a discovery announcement\<close>

text \<open>
  C5. The discovery service calls the registered callback with a host and \<^verbatim>\<open>connect\<close>
  raises the device error. Then the callback returns normally, nothing is raised to the
  discovery service, the calls issued are the connect and the error log entry, and the
  device mapping and the discovery slot are as before.
\<close>

theorem discovery_connect_failure_swallowed:
  assumes "connect e device host = Some DysonException"
  shows "call_callback e (Setup_entry_closure entry device) host s =
      (Inr (), s\<lparr>trace := trace s @ [(Connect (serial device) host, devices s),
                                     (LogError (serial device) host, devices s)]\<rparr>)
    \<and> devices (snd (call_callback e (Setup_entry_closure entry device) host s)) = devices s
    \<and> discovery (snd (call_callback e (Setup_entry_closure entry device) host s)) = discovery s"
  using assms by (simp add: setup_entry_refused)

theorem discovery_connect_failure_swallowed_witness:
  "connect demo_env fan_device ''192.168.1.99'' = Some DysonException
   \<and> call_callback demo_env (Setup_entry_closure fan_entry fan_device) ''192.168.1.99''
       async_setup =
      (Inr (), \<lparr>devices = Map.empty, discovery = None,
                trace = [(Connect ''AB1-EU-XYZ0001A'' ''192.168.1.99'', Map.empty),
                         (LogError ''AB1-EU-XYZ0001A'' ''192.168.1.99'', Map.empty)]\<rparr>)"
proof -
  have h: "connect demo_env fan_device ''192.168.1.99'' = Some DysonException"
    by (simp add: demo_env_def)
  from discovery_connect_failure_swallowed [OF h, of fan_entry async_setup] h
  show ?thesis by (simp add: async_setup_def fan_device_def)
qed

section \<open>Unloading\<close>

text \<open>
  C2. The entry's device is in the mapping. \<^verbatim>\<open>async_unload_entry\<close> returns whether every
  platform of the selector unloaded. When all did, the entry is removed from the mapping
  and \<^verbatim>\<open>disconnect\<close> is called after the removal, as the last call. When one did not, the
  result is \<^verbatim>\<open>False\<close>, the mapping is as before and the only calls issued are the platform
  unloads, so there is no disconnect. The discovery slot is never touched.
\<close>

theorem unload_atomic:
  assumes "devices s (entry_id entry) = Some device"
  shows "fst (async_unload_entry e entry s) =
       Inr (list_all (async_forward_entry_unload e entry) (async_get_platform device))
   \<and> (list_all (async_forward_entry_unload e entry) (async_get_platform device) \<longrightarrow>
        devices (snd (async_unload_entry e entry s)) = (devices s)(entry_id entry := None)
      \<and> calls_since s (snd (async_unload_entry e entry s)) =
          map (\<lambda>c. (ForwardEntryUnload (entry_id entry) c, devices s)) (async_get_platform device)
          @ [(Disconnect (serial device), (devices s)(entry_id entry := None))])
   \<and> (\<not> list_all (async_forward_entry_unload e entry) (async_get_platform device) \<longrightarrow>
        fst (async_unload_entry e entry s) = Inr False
      \<and> devices (snd (async_unload_entry e entry s)) = devices s
      \<and> calls_since s (snd (async_unload_entry e entry s)) =
          map (\<lambda>c. (ForwardEntryUnload (entry_id entry) c, devices s)) (async_get_platform device))
   \<and> discovery (snd (async_unload_entry e entry s)) = discovery s"
  using assms
  by (simp add: async_unload_entry_def Let_def fold_emit_trace)

theorem unload_atomic_witness:
  "devices connected_hass (entry_id fan_entry) = Some fan_device
   \<and> fst (async_unload_entry demo_env fan_entry connected_hass) = Inr True
   \<and> devices (snd (async_unload_entry demo_env fan_entry connected_hass)) ''entry-1'' = None
   \<and> calls_since connected_hass (snd (async_unload_entry demo_env fan_entry connected_hass)) =
       [(ForwardEntryUnload ''entry-1'' ''fan'', devices connected_hass),
        (ForwardEntryUnload ''entry-1'' ''sensor'', devices connected_hass),
        (Disconnect ''AB1-EU-XYZ0001A'', (devices connected_hass)(''entry-1'' := None))]
   \<and> devices connected_hass (entry_id eye_entry) = Some eye_device
   \<and> fst (async_unload_entry demo_env eye_entry connected_hass) = Inr False
   \<and> devices (snd (async_unload_entry demo_env eye_entry connected_hass)) =
       devices connected_hass
   \<and> calls_since connected_hass (snd (async_unload_entry demo_env eye_entry connected_hass)) =
       [(ForwardEntryUnload ''entry-2'' ''binary_sensor'', devices connected_hass),
        (ForwardEntryUnload ''entry-2'' ''sensor'', devices connected_hass),
        (ForwardEntryUnload ''entry-2'' ''vacuum'', devices connected_hass)]"
proof -
  have f: "devices connected_hass (entry_id fan_entry) = Some fan_device"
    and v: "devices connected_hass (entry_id eye_entry) = Some eye_device"
    by (simp_all add: connected_hass_def fan_entry_def eye_entry_def)
  have pf: "async_get_platform fan_device = [''fan'', ''sensor'']"
    and pv: "async_get_platform eye_device = [''binary_sensor'', ''sensor'', ''vacuum'']"
    by (simp_all add: async_get_platform_def fan_device_def eye_device_def)
  have ids: "entry_id fan_entry = ''entry-1''" "entry_id eye_entry = ''entry-2''"
    "serial fan_device = ''AB1-EU-XYZ0001A''"
    by (simp_all add: fan_entry_def eye_entry_def fan_device_def)
  have u: "async_forward_entry_unload demo_env = (\<lambda>entry c. c \<noteq> ''vacuum'')"
    by (simp add: demo_env_def)
  from unload_atomic [OF f, of demo_env] unload_atomic [OF v, of demo_env] f v
  show ?thesis
    by (simp add: pf pv ids u)
qed

text \<open>
  C9. The entry's identifier is not a key of the device mapping. Then
  \<^verbatim>\<open>async_unload_entry\<close> raises \<^verbatim>\<open>KeyError\<close> at the lookup, before any call is issued,
  and the state is as before; it does not return \<^verbatim>\<open>False\<close>.
\<close>

theorem unload_unknown_entry_raises:
  assumes "devices s (entry_id entry) = None"
  shows "async_unload_entry e entry s = (Inl (KeyError (entry_id entry)), s)"
  using assms by (simp add: async_unload_entry_def)

theorem unload_unknown_entry_raises_witness:
  "fst (async_setup_entry demo_env (fan_entry\<lparr>conf_host := Some ''192.168.1.99''\<rparr>) async_setup)
     = Inl ConfigEntryNotReady
   \<and> fst (async_unload_entry demo_env (fan_entry\<lparr>conf_host := Some ''192.168.1.99''\<rparr>)
       (snd (async_setup_entry demo_env (fan_entry\<lparr>conf_host := Some ''192.168.1.99''\<rparr>)
          async_setup))) = Inl (KeyError ''entry-1'')
   \<and> fst (async_setup_entry demo_env (fan_entry\<lparr>conf_host := None\<rparr>) async_setup) = Inr True
   \<and> fst (async_unload_entry demo_env (fan_entry\<lparr>conf_host := None\<rparr>)
       (snd (async_setup_entry demo_env (fan_entry\<lparr>conf_host := None\<rparr>) async_setup)))
     = Inl (KeyError ''entry-1'')"
proof -
  let ?bad = "fan_entry\<lparr>conf_host := Some ''192.168.1.99''\<rparr>"
  let ?hostless = "fan_entry\<lparr>conf_host := None\<rparr>"
  have dev: "get_device demo_env ''AB1-EU-XYZ0001A'' ''secret'' ''475'' = fan_device"
    and refuse: "connect demo_env fan_device ''192.168.1.99'' = Some DysonException"
    by (simp_all add: demo_env_def fan_device_def)
  have r1: "async_setup_entry demo_env ?bad async_setup =
      (Inl ConfigEntryNotReady,
       async_setup\<lparr>trace := trace async_setup @
          [(Connect (serial fan_device) ''192.168.1.99'', devices async_setup)]\<rparr>)"
    by (simp add: async_setup_entry_def Let_def fan_entry_def dev
        setup_entry_refused [OF refuse])
  have m: "devices async_setup = Map.empty"
    by (simp add: async_setup_def)
  have a1: "devices (snd (async_setup_entry demo_env ?bad async_setup)) (entry_id ?bad) = None"
    by (simp add: r1 m)
  have h: "\<not> truthy (conf_host ?hostless)" by simp
  have k: "announced demo_env (get_device demo_env (conf_serial ?hostless)
      (conf_credential ?hostless) (conf_device_type ?hostless)) = None"
    by (simp add: demo_env_def)
  have a2: "devices (snd (async_setup_entry demo_env ?hostless async_setup))
      (entry_id ?hostless) = None"
    by (simp add: hostless_setup_result [OF h k] Let_def m)
  have r2: "fst (async_setup_entry demo_env ?hostless async_setup) = Inr True"
    by (simp add: hostless_setup_result [OF h k] Let_def)
  have i: "entry_id fan_entry = ''entry-1''" by (simp add: fan_entry_def)
  from unload_unknown_entry_raises [OF a1, of demo_env]
    unload_unknown_entry_raises [OF a2, of demo_env] r1 r2
  show ?thesis by (simp add: i)
qed

section \<open>Setup without a configured host\<close>

text \<open>
  C6. An entry has no host address (the key is missing, or holds the empty string). The
  setup then makes no connect call of its own. It hands the pair of the device and its
  connect callback to the discovery service, so that the discovery slot holds the stored
  service with this pair added. When the service keeps the pair, the setup returns
  \<^verbatim>\<open>True\<close>, no call of the setup is a connect, the device mapping is as before and the
  last call is the registration. When the service already knows a host and calls the
  callback during the registration, the setup ends where that callback ends, started in
  the state of the finished registration, which itself has no connect and an unchanged
  device mapping: every connect of such a setup is made by the callback.

  Whenever the callback is called with a non-empty host on which \<^verbatim>\<open>connect\<close> returns,
  from any state, it returns normally, the device is stored under the entry's
  identifier, and the calls issued are the connect followed by one forward per platform
  of the selector, each made on the mapping that holds the device. This is the state,
  and these are the calls, of the setup of the same entry with that host configured; the
  same holds when the callback runs after the registration and the configured setup in
  its place.
\<close>

theorem hostless_setup_registers:
  assumes "\<not> truthy (conf_host entry)"
  shows "let device = get_device e (conf_serial entry) (conf_credential entry)
                        (conf_device_type entry);
             cb = Setup_entry_closure entry device;
             registered_state = snd (async_setup_entry (e\<lparr>announced := (\<lambda>d. None)\<rparr>) entry s)
    in discovery (snd (async_setup_entry e entry s)) =
         Some (register_device device cb
           (case discovery s of None \<Rightarrow> \<lparr>registered = []\<rparr> | Some d \<Rightarrow> d))
     \<and> filter (\<lambda>c. is_connect (fst c)) (calls_since s registered_state) = []
     \<and> devices registered_state = devices s
     \<and> last (calls_since s registered_state) =
         (RegisterDevice (serial device) (entry_id entry), devices s)
     \<and> (announced e device = None \<longrightarrow>
          async_setup_entry e entry s = (Inr True, registered_state))
     \<and> (\<forall>found. announced e device = Some found \<longrightarrow>
          snd (async_setup_entry e entry s) = snd (call_callback e cb found registered_state)
        \<and> (fst (async_setup_entry e entry s) = Inr True) =
            (fst (call_callback e cb found registered_state) = Inr ()))
     \<and> (\<forall>host t. host \<noteq> [] \<and> connect e device host = None \<longrightarrow>
          fst (call_callback e cb host t) = Inr ()
        \<and> devices (snd (call_callback e cb host t)) = (devices t)(entry_id entry \<mapsto> device)
        \<and> discovery (snd (call_callback e cb host t)) = discovery t
        \<and> calls_since t (snd (call_callback e cb host t)) =
            (Connect (serial device) host, devices t) #
            map (\<lambda>c. (ForwardEntrySetup (entry_id entry) c,
                       (devices t)(entry_id entry \<mapsto> device)))
              (async_get_platform device)
        \<and> async_setup_entry e (entry\<lparr>conf_host := Some host\<rparr>) t =
            (Inr True, snd (call_callback e cb host t))
        \<and> devices (snd (call_callback e cb host registered_state)) =
            devices (snd (async_setup_entry e (entry\<lparr>conf_host := Some host\<rparr>) s))
        \<and> calls_since registered_state (snd (call_callback e cb host registered_state)) =
            calls_since s (snd (async_setup_entry e (entry\<lparr>conf_host := Some host\<rparr>) s)))"
proof -
  let ?device = "get_device e (conf_serial entry) (conf_credential entry) (conf_device_type entry)"
  let ?cb = "Setup_entry_closure entry ?device"
  let ?e0 = "e\<lparr>announced := (\<lambda>d. None)\<rparr>"
  let ?r = "snd (async_setup_entry ?e0 entry s)"
  have kept: "announced ?e0 (get_device ?e0 (conf_serial entry) (conf_credential entry)
                (conf_device_type entry)) = None"
    by simp
  note r = hostless_setup_result [OF assms kept, of s]
  have a: "discovery (snd (async_setup_entry e entry s)) =
         Some (register_device ?device ?cb
           (case discovery s of None \<Rightarrow> \<lparr>registered = []\<rparr> | Some d \<Rightarrow> d))"
    by (rule hostless_setup_discovery [OF assms])
  have b: "filter (\<lambda>c. is_connect (fst c)) (calls_since s ?r) = []"
    by (simp add: r Let_def split: option.splits)
  have c: "devices ?r = devices s"
    by (simp add: r Let_def)
  have d: "last (calls_since s ?r) = (RegisterDevice (serial ?device) (entry_id entry), devices s)"
    by (simp add: r Let_def split: option.splits)
  have f: "async_setup_entry e entry s = (Inr True, ?r)" if "announced e ?device = None"
    using hostless_setup_result [OF assms that, of s] r by (simp add: Let_def)
  have g: "snd (async_setup_entry e entry s) = snd (call_callback e ?cb found ?r)
        \<and> (fst (async_setup_entry e entry s) = Inr True) =
            (fst (call_callback e ?cb found ?r) = Inr ())"
    if "announced e ?device = Some found" for found
    by (simp add: hostless_setup_called_back [OF assms that] split: prod.splits sum.splits)
  have h: "fst (call_callback e ?cb host t) = Inr ()
        \<and> devices (snd (call_callback e ?cb host t)) = (devices t)(entry_id entry \<mapsto> ?device)
        \<and> discovery (snd (call_callback e ?cb host t)) = discovery t
        \<and> calls_since t (snd (call_callback e ?cb host t)) =
            (Connect (serial ?device) host, devices t) #
            map (\<lambda>c. (ForwardEntrySetup (entry_id entry) c,
                       (devices t)(entry_id entry \<mapsto> ?device)))
              (async_get_platform ?device)
        \<and> async_setup_entry e (entry\<lparr>conf_host := Some host\<rparr>) t =
            (Inr True, snd (call_callback e ?cb host t))
        \<and> devices (snd (call_callback e ?cb host ?r)) =
            devices (snd (async_setup_entry e (entry\<lparr>conf_host := Some host\<rparr>) s))
        \<and> calls_since ?r (snd (call_callback e ?cb host ?r)) =
            calls_since s (snd (async_setup_entry e (entry\<lparr>conf_host := Some host\<rparr>) s))"
    if "host \<noteq> []" and "connect e ?device host = None" for host t
    using that
    by (simp add: setup_entry_connected
        async_setup_entry_def [of e "entry\<lparr>conf_host := Some host\<rparr>"] Let_def c)
  from a b c d f g h show ?thesis
    unfolding Let_def by blast
qed

theorem hostless_setup_registers_witness:
  "\<not> truthy (conf_host (fan_entry\<lparr>conf_host := None\<rparr>))
   \<and> async_setup_entry demo_env (fan_entry\<lparr>conf_host := None\<rparr>) async_setup =
       (Inr True,
        \<lparr>devices = Map.empty,
         discovery = Some \<lparr>registered =
           [(fan_device, Setup_entry_closure (fan_entry\<lparr>conf_host := None\<rparr>) fan_device)]\<rparr>,
         trace = [(NewDysonDiscovery, Map.empty),
                  (LogDebug ''Starting dyson discovery'', Map.empty),
                  (StartDiscovery, Map.empty),
                  (ListenOnceStop, Map.empty),
                  (RegisterDevice ''AB1-EU-XYZ0001A'' ''entry-1'', Map.empty)]\<rparr>)
   \<and> connect demo_env fan_device ''192.168.1.20'' = None
   \<and> fst (call_callback demo_env
            (Setup_entry_closure (fan_entry\<lparr>conf_host := None\<rparr>) fan_device) ''192.168.1.20''
            async_setup) = Inr ()
   \<and> devices (snd (call_callback demo_env
            (Setup_entry_closure (fan_entry\<lparr>conf_host := None\<rparr>) fan_device) ''192.168.1.20''
            async_setup)) = [''entry-1'' \<mapsto> fan_device]
   \<and> calls_since async_setup (snd (call_callback demo_env
            (Setup_entry_closure (fan_entry\<lparr>conf_host := None\<rparr>) fan_device) ''192.168.1.20''
            async_setup)) =
       [(Connect ''AB1-EU-XYZ0001A'' ''192.168.1.20'', Map.empty),
        (ForwardEntrySetup ''entry-1'' ''fan'', [''entry-1'' \<mapsto> fan_device]),
        (ForwardEntrySetup ''entry-1'' ''sensor'', [''entry-1'' \<mapsto> fan_device])]
   \<and> async_setup_entry demo_env fan_entry async_setup =
       (Inr True, snd (call_callback demo_env
            (Setup_entry_closure (fan_entry\<lparr>conf_host := None\<rparr>) fan_device) ''192.168.1.20''
            async_setup))
   \<and> announced (demo_env\<lparr>announced := (\<lambda>d. Some ''192.168.1.20'')\<rparr>) fan_device =
       Some ''192.168.1.20''
   \<and> fst (async_setup_entry (demo_env\<lparr>announced := (\<lambda>d. Some ''192.168.1.20'')\<rparr>)
            (fan_entry\<lparr>conf_host := None\<rparr>) async_setup) = Inr True
   \<and> devices (snd (async_setup_entry (demo_env\<lparr>announced := (\<lambda>d. Some ''192.168.1.20'')\<rparr>)
            (fan_entry\<lparr>conf_host := None\<rparr>) async_setup)) = [''entry-1'' \<mapsto> fan_device]"
proof -
  let ?hostless = "fan_entry\<lparr>conf_host := None\<rparr>"
  let ?cb = "Setup_entry_closure ?hostless fan_device"
  let ?seen = "demo_env\<lparr>announced := (\<lambda>d. Some ''192.168.1.20'')\<rparr>"
  let ?r = "snd (async_setup_entry demo_env ?hostless async_setup)"
  have h: "\<not> truthy (conf_host ?hostless)" by simp
  have dev: "get_device demo_env (conf_serial ?hostless) (conf_credential ?hostless)
      (conf_device_type ?hostless) = fan_device"
    and dev': "get_device ?seen (conf_serial ?hostless) (conf_credential ?hostless)
      (conf_device_type ?hostless) = fan_device"
    by (simp_all add: demo_env_def fan_entry_def fan_device_def)
  have quiet: "demo_env\<lparr>announced := (\<lambda>d. None)\<rparr> = demo_env"
    and quiet': "?seen\<lparr>announced := (\<lambda>d. None)\<rparr> = demo_env"
    by (simp_all add: demo_env_def)
  have ok: "connect demo_env fan_device ''192.168.1.20'' = None"
    and ok': "connect ?seen fan_device ''192.168.1.20'' = None"
    and kept: "announced demo_env fan_device = None"
    and seen: "announced ?seen fan_device = Some ''192.168.1.20''"
    by (simp_all add: demo_env_def)
  have restore: "?hostless\<lparr>conf_host := Some ''192.168.1.20''\<rparr> = fan_entry"
    by (simp add: fan_entry_def)
  have init: "devices async_setup = Map.empty" "discovery async_setup = None"
    "trace async_setup = []"
    by (simp_all add: async_setup_def)
  have ids: "entry_id ?hostless = ''entry-1''" "serial fan_device = ''AB1-EU-XYZ0001A''"
    "async_get_platform fan_device = [''fan'', ''sensor'']"
    by (simp_all add: fan_entry_def fan_device_def async_get_platform_def)
  note w = hostless_setup_registers [OF h, of demo_env async_setup,
      unfolded Let_def dev quiet]
  note w' = hostless_setup_registers [OF h, of ?seen async_setup,
      unfolded Let_def dev' quiet']
  from w kept have whole: "async_setup_entry demo_env ?hostless async_setup = (Inr True, ?r)"
    and disc: "discovery ?r = Some (register_device fan_device ?cb
        (case discovery async_setup of None \<Rightarrow> \<lparr>registered = []\<rparr> | Some d \<Rightarrow> d))"
    and devs: "devices ?r = devices async_setup"
    by simp_all
  from w have later: "\<forall>host t. host \<noteq> [] \<and> connect demo_env fan_device host = None \<longrightarrow>
        fst (call_callback demo_env ?cb host t) = Inr ()
      \<and> devices (snd (call_callback demo_env ?cb host t)) =
          (devices t)(entry_id ?hostless \<mapsto> fan_device)
      \<and> calls_since t (snd (call_callback demo_env ?cb host t)) =
          (Connect (serial fan_device) host, devices t) #
          map (\<lambda>c. (ForwardEntrySetup (entry_id ?hostless) c,
                     (devices t)(entry_id ?hostless \<mapsto> fan_device)))
            (async_get_platform fan_device)
      \<and> async_setup_entry demo_env (?hostless\<lparr>conf_host := Some host\<rparr>) t =
          (Inr True, snd (call_callback demo_env ?cb host t))"
    by blast
  from later [rule_format, of "''192.168.1.20''" async_setup] ok
  have cb1: "fst (call_callback demo_env ?cb ''192.168.1.20'' async_setup) = Inr ()"
    and cb2: "devices (snd (call_callback demo_env ?cb ''192.168.1.20'' async_setup)) =
        [''entry-1'' \<mapsto> fan_device]"
    and cb3: "calls_since async_setup
        (snd (call_callback demo_env ?cb ''192.168.1.20'' async_setup)) =
        [(Connect ''AB1-EU-XYZ0001A'' ''192.168.1.20'', Map.empty),
         (ForwardEntrySetup ''entry-1'' ''fan'', [''entry-1'' \<mapsto> fan_device]),
         (ForwardEntrySetup ''entry-1'' ''sensor'', [''entry-1'' \<mapsto> fan_device])]"
    and cb4: "async_setup_entry demo_env fan_entry async_setup =
        (Inr True, snd (call_callback demo_env ?cb ''192.168.1.20'' async_setup))"
    by (simp_all add: restore init ids)
  from w' seen have fired:
      "snd (async_setup_entry ?seen ?hostless async_setup) =
         snd (call_callback ?seen ?cb ''192.168.1.20'' ?r)"
      "(fst (async_setup_entry ?seen ?hostless async_setup) = Inr True) =
         (fst (call_callback ?seen ?cb ''192.168.1.20'' ?r) = Inr ())"
    by simp_all
  from w' have later': "\<forall>host t. host \<noteq> [] \<and> connect ?seen fan_device host = None \<longrightarrow>
        fst (call_callback ?seen ?cb host t) = Inr ()
      \<and> devices (snd (call_callback ?seen ?cb host t)) =
          (devices t)(entry_id ?hostless \<mapsto> fan_device)"
    by blast
  from later' [rule_format, of "''192.168.1.20''" ?r] ok' fired devs
  have f1: "fst (async_setup_entry ?seen ?hostless async_setup) = Inr True"
    and f2: "devices (snd (async_setup_entry ?seen ?hostless async_setup)) =
        [''entry-1'' \<mapsto> fan_device]"
    by (simp_all add: init ids)
  have state: "?r = \<lparr>devices = Map.empty,
         discovery = Some \<lparr>registered = [(fan_device, ?cb)]\<rparr>,
         trace = [(NewDysonDiscovery, Map.empty),
                  (LogDebug ''Starting dyson discovery'', Map.empty),
                  (StartDiscovery, Map.empty),
                  (ListenOnceStop, Map.empty),
                  (RegisterDevice ''AB1-EU-XYZ0001A'' ''entry-1'', Map.empty)]\<rparr>"
    using dev kept
    by (simp add: hostless_setup_result [OF h] Let_def init ids register_device_def
        async_setup_def)
  from h whole state ok cb1 cb2 cb3 cb4 seen f1 f2 show ?thesis
    by simp
qed

section \<open>The discovery service is created once\<close>



section \<open>The entity base class: messages\<close>

text \<open>
  C7. An entity whose class has no message type (\<^verbatim>\<open>_MESSAGE_TYPE\<close> is \<^verbatim>\<open>None\<close>) requests a
  state refresh on every message. An entity whose class has a message type requests a
  refresh exactly when the message is of that type, and does nothing otherwise.
\<close>

theorem on_message_filter:
  "(MESSAGE_TYPE self = None \<longrightarrow> on_message self message_type = [Schedule_update_ha_state])
   \<and> (MESSAGE_TYPE self = Some t \<longrightarrow>
        (on_message self message_type = [Schedule_update_ha_state]) = (message_type = t)
      \<and> (on_message self message_type = []) = (message_type \<noteq> t))
   \<and> on_message (DysonEntity None device nm) message_type = [Schedule_update_ha_state]
   \<and> on_message (DysonEntity (Some t) device nm) message_type =
        (if message_type = t then [Schedule_update_ha_state] else [])"
  by (auto simp: on_message_def DysonEntity_def)

theorem on_message_filter_witness:
  "on_message (DysonEntity None fan_device ''Fan'') ''STATE'' = [Schedule_update_ha_state]
   \<and> on_message (DysonEntity None fan_device ''Fan'') ''ENVIRONMENTAL'' =
       [Schedule_update_ha_state]
   \<and> on_message (DysonEntity (Some ''ENVIRONMENTAL'') fan_device ''Humidity'') ''ENVIRONMENTAL'' =
       [Schedule_update_ha_state]
   \<and> on_message (DysonEntity (Some ''ENVIRONMENTAL'') fan_device ''Humidity'') ''STATE'' = []"
proof -
  have n: "MESSAGE_TYPE (DysonEntity None fan_device ''Fan'' :: string dyson_entity) = None"
    and f: "MESSAGE_TYPE (DysonEntity (Some ''ENVIRONMENTAL'') fan_device ''Humidity'') =
      Some ''ENVIRONMENTAL''"
    by (simp_all add: DysonEntity_def)
  from on_message_filter [of "DysonEntity None fan_device ''Fan''" "''STATE''"]
    on_message_filter [of "DysonEntity None fan_device ''Fan''" "''ENVIRONMENTAL''"]
    on_message_filter [of "DysonEntity (Some ''ENVIRONMENTAL'') fan_device ''Humidity''"
      "''ENVIRONMENTAL''" "''ENVIRONMENTAL''"]
    on_message_filter [of "DysonEntity (Some ''ENVIRONMENTAL'') fan_device ''Humidity''"
      "''STATE''" "''ENVIRONMENTAL''"]
    n f
  show ?thesis by simp
qed

section \<open>The platform selector\<close>

text \<open>
  C4. \<^verbatim>\<open>_async_get_platform\<close> depends on nothing but whether the device is a
  \<^verbatim>\<open>Dyson360Eye\<close>, the robotic vacuum: for such a device it is the list binary_sensor,
  sensor, vacuum, and for every other device it is the list fan, sensor.
\<close>

theorem platform_selector_total:
  "async_get_platform device =
     (if py_class device = Dyson360Eye
      then [''binary_sensor'', ''sensor'', ''vacuum'']
      else [''fan'', ''sensor''])
   \<and> async_get_platform \<lparr>py_class = Dyson360Eye, serial = ser, device_type = ty\<rparr> =
       [''binary_sensor'', ''sensor'', ''vacuum'']
   \<and> async_get_platform \<lparr>py_class = OtherDysonDevice cls, serial = ser, device_type = ty\<rparr> =
       [''fan'', ''sensor'']"
  by (simp add: async_get_platform_def)

section \<open>The entity base class: identity\<close>

text \<open>
  C10. The unique identifier of an entity is the serial of its device and nothing else:
  entities built over the same device have the same unique identifier, whatever their
  names and whatever message type their class filters on.
\<close>

theorem unique_id_is_bare_serial:
  "unique_id (DysonEntity filter1 device name1) = serial device
   \<and> unique_id (DysonEntity filter1 device name1) = unique_id (DysonEntity filter2 device name2)"
  by (simp add: unique_id_def DysonEntity_def)

end
